theory Spec2Isabelle
  imports Complex_Main
begin

section \<open>Identifiers, dates, enumerations and errors\<close>

text \<open>
  An ObjectId is an opaque key compared through \<open>toString()\<close>; it is a natural number
  here, and string equality of two ids is equality of the numbers. A \<open>Date\<close> is its
  \<open>getTime()\<close> value (milliseconds), so \<open><=\<close> on dates is \<open>\<le>\<close> on integers. Every
  \<open>new Date()\<close> of a handler reads the clock; the handlers take that reading as the
  argument \<open>now\<close>. A JavaScript \<open>Number\<close> holding hours is an exact real: the rounding
  of IEEE doubles is outside this development.
\<close>

type_synonym oid = nat
type_synonym date = int

datatype user_role = Admin | Team_leader | Member
datatype team_role = TR_team_leader | TR_member
datatype project_role = Project_manager | Developer | Tester | Designer | Other_role
datatype project_status = Planning | Active | On_hold | Proj_completed | Proj_cancelled
datatype task_status = Todo | In_progress | Review | Completed | Cancelled
datatype priority = Low | Medium | High | Critical
datatype task_type = Feature | Bug | Improvement | Research | Testing | Documentation | Other_type
datatype dep_type = Blocks | Depends_on

text \<open>An error response: the HTTP status and the \<open>message\<close> of the JSON body.\<close>

datatype err = Err nat string


text \<open>\<open>String.prototype.trim\<close>, on the ASCII white space.\<close>

definition is_space :: "char \<Rightarrow> bool" where
  "is_space c = (c \<in> set [CHR '' '', CHR 0x09, CHR 0x0A, CHR 0x0B, CHR 0x0C, CHR 0x0D])"

definition trim :: "string \<Rightarrow> string" where
  "trim s = rev (dropWhile is_space (rev (dropWhile is_space s)))"

section \<open>The Team model (models/Team.js)\<close>

record team_member =
  tm_user :: oid
  tm_joinedAt :: date
  tm_role :: team_role

record team_settings =
  allowMemberInvite :: bool
  publicVisibility :: bool

record team =
  t_id :: oid
  t_name :: string
  t_description :: string
  teamLeader :: oid
  members :: "team_member list"
  t_isActive :: bool
  t_settings :: team_settings
  t_createdBy :: oid








section \<open>The Project model (models/Project.js)\<close>

record assigned_member =
  am_user :: oid
  am_assignedAt :: date
  am_role :: project_role

record project =
  p_id :: oid
  p_name :: string
  p_description :: string
  p_team :: oid
  projectManager :: oid
  assignedMembers :: "assigned_member list"
  p_status :: project_status
  p_priority :: priority
  p_startDate :: date
  p_endDate :: date
  actualEndDate :: "date option"
  budget_allocated :: real
  budget_spent :: real
  p_tags :: "string list"
  p_createdBy :: oid




definition project_removeMember :: "project \<Rightarrow> oid \<Rightarrow> project" where
  "project_removeMember p userId =
     p\<lparr>assignedMembers := filter (\<lambda>m. am_user m \<noteq> userId) (assignedMembers p)\<rparr>"




section \<open>The Task model (models/Task.js)\<close>

record dependency =
  dep_task :: oid
  dep_kind :: dep_type

record comment =
  c_user :: oid
  c_comment :: string
  c_createdAt :: date

record progress_update =
  pu_user :: oid
  pu_status :: task_status
  pu_comment :: "string option"
  pu_hoursWorked :: real
  pu_updatedAt :: date

record task =
  k_id :: oid
  k_title :: string
  k_description :: string
  k_project :: oid
  assignedTo :: oid
  assignedBy :: oid
  k_status :: task_status
  k_priority :: priority
  k_type :: task_type
  estimatedHours :: real
  actualHours :: real
  k_startDate :: date
  dueDate :: date
  completedDate :: "date option"
  k_tags :: "string list"
  dependencies :: "dependency list"
  comments :: "comment list"
  progressUpdates :: "progress_update list"



definition updateProgress ::
  "task \<Rightarrow> oid \<Rightarrow> task_status \<Rightarrow> string option \<Rightarrow> real \<Rightarrow> date \<Rightarrow> task" where
  "updateProgress k userId status c hoursWorked now =
     (let k1 = k\<lparr>progressUpdates := progressUpdates k @
                [\<lparr>pu_user = userId, pu_status = status, pu_comment = c,
                  pu_hoursWorked = hoursWorked, pu_updatedAt = now\<rparr>]\<rparr>;
          k2 = k1\<lparr>k_status := status\<rparr>;
          k3 = k2\<lparr>actualHours := actualHours k2 + hoursWorked\<rparr>
      in if status = Completed then k3\<lparr>completedDate := Some now\<rparr> else k3)"





section \<open>The User model (models/User.js)\<close>

record profile =
  avatar :: "string option"
  phone :: "string option"
  department :: "string option"
  position :: "string option"
  joinDate :: date

record user =
  u_id :: oid
  u_name :: string
  email :: string
  password :: string
  role :: user_role
  isActive :: bool
  u_teams :: "oid list"
  u_profile :: profile
  lastLogin :: "date option"
  u_createdBy :: "oid option"
  createdAt :: date
  updatedAt :: date

definition canManageUsers :: "user \<Rightarrow> bool" where
  "canManageUsers u = (role u = Admin)"

definition canManageTeams :: "user \<Rightarrow> bool" where
  "canManageTeams u = (role u = Admin)"

definition canManageProjects :: "user \<Rightarrow> bool" where
  "canManageProjects u = (role u \<in> set [Admin, Team_leader])"

section \<open>The store\<close>

text \<open>
  One collection per model. \<open>findById\<close> is the first document with the id; MongoDB
  keeps \<open>_id\<close> unique in a collection. An insert under an id that is taken is the
  duplicate-key error of the driver, which the \<open>catch\<close> of a handler answers with
  status 500.
\<close>

record db =
  users :: "user list"
  teams :: "team list"
  projects :: "project list"
  tasks :: "task list"

definition find_user :: "db \<Rightarrow> oid \<Rightarrow> user option" where
  "find_user s i = find (\<lambda>u. u_id u = i) (users s)"




text \<open>Writing a loaded document back replaces the stored document of the same id.\<close>

definition put_user :: "db \<Rightarrow> user \<Rightarrow> db" where
  "put_user s u = s\<lparr>users := map (\<lambda>x. if u_id x = u_id u then u else x) (users s)\<rparr>"




abbreviation internal_error :: err where
  "internal_error \<equiv> Err 500 ''Internal server error''"

text \<open>
  A handler answers with an error before its first write, so the store after a request
  is the store before it when the answer is an error.
\<close>

definition db_after :: "db \<Rightarrow> err + db \<Rightarrow> db" where
  "db_after s r = (case r of Inl e \<Rightarrow> s | Inr s' \<Rightarrow> s')"


section \<open>The task routes (routes/tasks.js)\<close>
















section \<open>The team routes (routes/teams.js)\<close>

text \<open>
  The name check is \<open>Team.findOne({name: {$regex: new RegExp(`^${name}$`, 'i')}})\<close>. The
  regular expression engine is a parameter of the handlers: \<open>rx pat x\<close> is the test of
  the stored name \<open>x\<close> against the expression built from \<open>pat\<close>.
\<close>

record settings_body =
  sb_allowMemberInvite :: "bool option"
  sb_publicVisibility :: "bool option"


text \<open>\<open>{ ...team.settings, ...settings }\<close>: a key of the body replaces the stored one.\<close>

definition merge_settings :: "team_settings \<Rightarrow> settings_body \<Rightarrow> team_settings" where
  "merge_settings st b =
     \<lparr>allowMemberInvite =
        (case sb_allowMemberInvite b of None \<Rightarrow> allowMemberInvite st | Some x \<Rightarrow> x),
      publicVisibility =
        (case sb_publicVisibility b of None \<Rightarrow> publicVisibility st | Some x \<Rightarrow> x)\<rparr>"






text \<open>
  PUT /api/teams/:id. \<open>find\<close> returns the first entry of a user and the assignment to
  its \<open>role\<close> changes that entry in place.
\<close>

fun set_role_first :: "oid \<Rightarrow> team_role \<Rightarrow> team_member list \<Rightarrow> team_member list" where
  "set_role_first u r [] = []"
| "set_role_first u r (m # ms) =
     (if tm_user m = u then m\<lparr>tm_role := r\<rparr> # ms else m # set_role_first u r ms)"

definition reassign_leader :: "team \<Rightarrow> oid \<Rightarrow> date \<Rightarrow> team" where
  "reassign_leader t newLeader now =
     (let ms1 = set_role_first (teamLeader t) TR_member (members t);
          ms2 = (case find (\<lambda>m. tm_user m = newLeader) ms1 of
                   Some newLeaderMember \<Rightarrow> set_role_first newLeader TR_team_leader ms1
                 | None \<Rightarrow>
                     ms1 @ [\<lparr>tm_user = newLeader, tm_joinedAt = now, tm_role = TR_team_leader\<rparr>])
      in t\<lparr>members := ms2, teamLeader := newLeader\<rparr>)"

record team_update =
  tu_name :: "string option"
  tu_description :: "string option"
  tu_teamLeader :: "oid option"
  tu_isActive :: "bool option"
  tu_settings :: "settings_body option"

text \<open>\<open>if (name)\<close> is false of the empty string as of an absent name.\<close>

definition name_given :: "string option \<Rightarrow> string option" where
  "name_given n = (case n of None \<Rightarrow> None | Some x \<Rightarrow> if x = [] then None else Some x)"

definition team_other_fields :: "team \<Rightarrow> team_update \<Rightarrow> team" where
  "team_other_fields t body =
     t\<lparr>t_name := (case name_given (tu_name body) of None \<Rightarrow> t_name t | Some n \<Rightarrow> trim n),
       t_description := (case tu_description body of None \<Rightarrow> t_description t | Some d \<Rightarrow> d),
       t_isActive := (case tu_isActive body of None \<Rightarrow> t_isActive t | Some b \<Rightarrow> b),
       t_settings := (case tu_settings body of
                        None \<Rightarrow> t_settings t
                      | Some b \<Rightarrow> merge_settings (t_settings t) b)\<rparr>"





text \<open>
  The invariant of a team: the leader has an entry tagged \<open>team_leader\<close>, and one entry
  in all carries the tag. \<open>members_distinct\<close>: no user has two entries.
\<close>

definition leader_tagged :: "team \<Rightarrow> bool" where
  "leader_tagged t =
     list_ex (\<lambda>m. tm_user m = teamLeader t \<and> tm_role m = TR_team_leader) (members t)"

definition leader_tags :: "team \<Rightarrow> nat" where
  "leader_tags t = length (filter (\<lambda>m. tm_role m = TR_team_leader) (members t))"

definition members_distinct :: "team \<Rightarrow> bool" where
  "members_distinct t = distinct (map tm_user (members t))"

definition team_inv :: "team \<Rightarrow> bool" where
  "team_inv t = (leader_tagged t \<and> leader_tags t = 1 \<and> members_distinct t)"


section \<open>The project routes (routes/projects.js)\<close>












section \<open>The user routes (routes/users.js) and registration (routes/auth.js)\<close>

text \<open>
  PUT /api/users/:id/demote, behind \<open>requireAdmin\<close>. The handler changes the path
  \<open>role\<close> alone, and every value of the type is in the enumeration of the schema, so
  the save has no validator to fail.
\<close>

definition demoteUser :: "db \<Rightarrow> oid \<Rightarrow> err + db" where
  "demoteUser s userId =
     (case find_user s userId of
        None \<Rightarrow> Inl (Err 404 ''User not found'')
      | Some u \<Rightarrow>
          if role u = Admin then Inl (Err 400 ''Cannot modify admin role'')
          else if role u = Member then Inl (Err 400 ''User is already a member'')
          else if length (filter (\<lambda>t. teamLeader t = userId \<and> t_isActive t) (teams s)) > 0
          then Inl (Err 400 ''Cannot demote user who is leading active teams'')
          else Inr (put_user s (u\<lparr>role := Member\<rparr>)))"

text \<open>\<open>String.prototype.toLowerCase\<close>, on the ASCII letters.\<close>

definition lower_char :: "char \<Rightarrow> char" where
  "lower_char c =
     (let n = (of_char c :: nat) in if 65 \<le> n \<and> n \<le> 90 then char_of (n + 32) else c)"

definition toLowerCase :: "string \<Rightarrow> string" where
  "toLowerCase s = map lower_char s"

record register_body =
  rb_name :: string
  rb_email :: string
  rb_password :: string
  rb_role :: "user_role option"

text \<open>\<open>new User({...})\<close>: an absent role takes the schema default \<open>member\<close>.\<close>

definition new_user :: "string \<Rightarrow> string \<Rightarrow> string \<Rightarrow> user_role option \<Rightarrow> oid \<Rightarrow> date \<Rightarrow> user" where
  "new_user n e hashedPassword userRole newId now =
     \<lparr>u_id = newId, u_name = trim n, email = e, password = hashedPassword,
      role = (case userRole of None \<Rightarrow> Member | Some r \<Rightarrow> r),
      isActive = True, u_teams = [],
      u_profile = \<lparr>avatar = None, phone = None, department = None, position = None,
                    joinDate = now\<rparr>,
      lastLogin = None, u_createdBy = None, createdAt = now, updatedAt = now\<rparr>"

text \<open>
  The validators of the user schema; \<open>email_ok\<close> is the test of the \<open>match\<close> pattern
  of the email path, a parameter as the engine that runs it is.
\<close>

definition user_validate :: "(string \<Rightarrow> bool) \<Rightarrow> user \<Rightarrow> bool" where
  "user_validate email_ok u =
     (u_name u \<noteq> [] \<and> length (u_name u) \<le> 100 \<and> email u \<noteq> [] \<and> email_ok (email u) \<and>
      password u \<noteq> [] \<and> 6 \<le> length (password u))"

text \<open>
  POST /api/auth/register. \<open>hash\<close> is \<open>bcrypt.hash\<close> with its salt rounds. The
  document is saved, then saved again with \<open>lastLogin\<close> set.
\<close>

definition register ::
  "(string \<Rightarrow> string) \<Rightarrow> (string \<Rightarrow> bool) \<Rightarrow> db \<Rightarrow> register_body \<Rightarrow> oid \<Rightarrow> date \<Rightarrow> err + db" where
  "register hash email_ok s body newId now =
     (if list_ex (\<lambda>u. email u = toLowerCase (rb_email body)) (users s)
      then Inl (Err 400 ''User with this email already exists'')
      else
        (let userCount = length (users s);
             userRole = (if userCount = 0 then Some Admin else rb_role body);
             u = new_user (rb_name body) (toLowerCase (rb_email body))
                   (hash (rb_password body)) userRole newId now
         in if \<not> user_validate email_ok u then Inl (Err 400 ''Validation failed'')
            else if newId \<in> set (map u_id (users s)) then Inl internal_error
            else Inr (put_user (s\<lparr>users := users s @ [u]\<rparr>) (u\<lparr>lastLogin := Some now\<rparr>))))"

section \<open>The JSON of a user (models/User.js)\<close>

datatype json =
  JNull | JBool bool | JNum int | JStr string | JId oid | JDate date
  | JArr "json list" | JObj "(string \<times> json) list"

definition role_name :: "user_role \<Rightarrow> string" where
  "role_name r = (case r of Admin \<Rightarrow> ''admin'' | Team_leader \<Rightarrow> ''team_leader'' | Member \<Rightarrow> ''member'')"

text \<open>A path that is not set has no key in the object.\<close>

definition opt_field :: "string \<Rightarrow> ('a \<Rightarrow> json) \<Rightarrow> 'a option \<Rightarrow> (string \<times> json) list" where
  "opt_field k f v = (case v of None \<Rightarrow> [] | Some x \<Rightarrow> [(k, f x)])"

definition profile_object :: "profile \<Rightarrow> json" where
  "profile_object pr =
     JObj (opt_field ''avatar'' JStr (avatar pr) @ opt_field ''phone'' JStr (phone pr) @
           opt_field ''department'' JStr (department pr) @
           opt_field ''position'' JStr (position pr) @ [(''joinDate'', JDate (joinDate pr))])"

text \<open>\<open>this.toObject()\<close>: every path of the schema that is set, the password among them.\<close>

definition toObject :: "user \<Rightarrow> (string \<times> json) list" where
  "toObject u =
     [(''_id'', JId (u_id u)), (''name'', JStr (u_name u)), (''email'', JStr (email u)),
      (''password'', JStr (password u)), (''role'', JStr (role_name (role u))),
      (''isActive'', JBool (isActive u)), (''teams'', JArr (map JId (u_teams u))),
      (''profile'', profile_object (u_profile u))] @
     opt_field ''lastLogin'' JDate (lastLogin u) @ opt_field ''createdBy'' JId (u_createdBy u) @
     [(''createdAt'', JDate (createdAt u)), (''updatedAt'', JDate (updatedAt u))]"

text \<open>\<open>delete obj[key]\<close>\<close>

definition delete_key :: "string \<Rightarrow> (string \<times> json) list \<Rightarrow> (string \<times> json) list" where
  "delete_key k obj = filter (\<lambda>kv. fst kv \<noteq> k) obj"

definition toJSON :: "user \<Rightarrow> (string \<times> json) list" where
  "toJSON u = delete_key ''password'' (toObject u)"

text \<open>The virtual \<open>fullProfile\<close>, which the register and login responses carry.\<close>

definition fullProfile :: "user \<Rightarrow> (string \<times> json) list" where
  "fullProfile u =
     [(''id'', JId (u_id u)), (''name'', JStr (u_name u)), (''email'', JStr (email u)),
      (''role'', JStr (role_name (role u))), (''isActive'', JBool (isActive u)),
      (''profile'', profile_object (u_profile u)), (''teams'', JArr (map JId (u_teams u))),
      (''createdAt'', JDate (createdAt u)), (''updatedAt'', JDate (updatedAt u))]"

section \<open>The list endpoints\<close>

text \<open>
  A list handler builds a MongoDB query object key by key and finds the documents that
  match it; \<open>countDocuments\<close> of the same query is the total of the response, and the
  page sent is a slice of the matches in the order asked for. A later assignment to a
  key of the query replaces the earlier one. \<open>rxs pat x\<close> is the test of the text \<open>x\<close>
  against the search expression \<open>{$regex: pat, $options: 'i'}\<close>.
\<close>

datatype 'a cond = Eq 'a | In "'a list" | Nin "'a list"

definition holds :: "'a cond option \<Rightarrow> 'a \<Rightarrow> bool" where
  "holds c x =
     (case c of None \<Rightarrow> True | Some (Eq y) \<Rightarrow> x = y | Some (In ys) \<Rightarrow> x \<in> set ys
      | Some (Nin ys) \<Rightarrow> x \<notin> set ys)"






text \<open>GET /api/tasks. \<open>tf_overdue\<close> is the test \<open>overdue === 'true'\<close>.\<close>

record task_query =
  tq_project :: "oid cond option"
  tq_assignedTo :: "oid option"
  tq_and :: "string list"
  tq_status :: "task_status cond option"
  tq_priority :: "priority option"
  tq_type :: "task_type option"
  tq_dueBefore :: "date option"

definition matches_task :: "(string \<Rightarrow> string \<Rightarrow> bool) \<Rightarrow> task_query \<Rightarrow> task \<Rightarrow> bool" where
  "matches_task rxs q k =
     (holds (tq_project q) (k_project k) \<and>
      (case tq_assignedTo q of None \<Rightarrow> True | Some uid \<Rightarrow> assignedTo k = uid) \<and>
      list_all (\<lambda>pat. rxs pat (k_title k) \<or> rxs pat (k_description k) \<or>
                       list_ex (rxs pat) (k_tags k)) (tq_and q) \<and>
      holds (tq_status q) (k_status k) \<and>
      (case tq_priority q of None \<Rightarrow> True | Some x \<Rightarrow> k_priority k = x) \<and>
      (case tq_type q of None \<Rightarrow> True | Some x \<Rightarrow> k_type k = x) \<and>
      (case tq_dueBefore q of None \<Rightarrow> True | Some d \<Rightarrow> dueDate k < d))"

record task_filters =
  tf_search :: "string option"
  tf_status :: "task_status option"
  tf_priority :: "priority option"
  tf_type :: "task_type option"
  tf_projectId :: "oid option"
  tf_assignedTo :: "oid option"
  tf_overdue :: bool

definition tasks_query :: "db \<Rightarrow> user \<Rightarrow> task_filters \<Rightarrow> date \<Rightarrow> task_query" where
  "tasks_query s actor f now =
     (let q0 = \<lparr>tq_project = None, tq_assignedTo = None, tq_and = [], tq_status = None,
                tq_priority = None, tq_type = None, tq_dueBefore = None\<rparr>;
          q1 = (if role actor = Admin then q0
                else if role actor = Team_leader
                then q0\<lparr>tq_project :=
                          Some (In (map p_id
                            (filter (\<lambda>p. projectManager p = u_id actor \<or>
                                          list_ex (\<lambda>m. am_user m = u_id actor) (assignedMembers p))
                               (projects s))))\<rparr>
                else q0\<lparr>tq_assignedTo := Some (u_id actor)\<rparr>);
          q2 = (case name_given (tf_search f) of
                  None \<Rightarrow> q1 | Some x \<Rightarrow> q1\<lparr>tq_and := tq_and q1 @ [x]\<rparr>);
          q3 = (case tf_status f of None \<Rightarrow> q2 | Some x \<Rightarrow> q2\<lparr>tq_status := Some (Eq x)\<rparr>);
          q4 = (case tf_priority f of None \<Rightarrow> q3 | Some x \<Rightarrow> q3\<lparr>tq_priority := Some x\<rparr>);
          q5 = (case tf_type f of None \<Rightarrow> q4 | Some x \<Rightarrow> q4\<lparr>tq_type := Some x\<rparr>);
          q6 = (case tf_projectId f of None \<Rightarrow> q5 | Some x \<Rightarrow> q5\<lparr>tq_project := Some (Eq x)\<rparr>);
          q7 = (case tf_assignedTo f of None \<Rightarrow> q6 | Some x \<Rightarrow> q6\<lparr>tq_assignedTo := Some x\<rparr>)
      in if tf_overdue f
         then q7\<lparr>tq_dueBefore := Some now, tq_status := Some (Nin [Completed, Cancelled])\<rparr>
         else q7)"

definition listTasks ::
  "(string \<Rightarrow> string \<Rightarrow> bool) \<Rightarrow> db \<Rightarrow> user \<Rightarrow> task_filters \<Rightarrow> date \<Rightarrow> task list" where
  "listTasks rxs s actor f now = filter (matches_task rxs (tasks_query s actor f now)) (tasks s)"







definition no_task_filters :: task_filters where
  "no_task_filters =
     \<lparr>tf_search = None, tf_status = None, tf_priority = None, tf_type = None,
      tf_projectId = None, tf_assignedTo = None, tf_overdue = False\<rparr>"


section \<open>Invariants of the stored tasks\<close>



section \<open>A store to run the handlers on\<close>

text \<open>
  Alice (1) is the admin, Bob (2) and Erin (5) are team leaders, Carol (3) and Dave (4)
  are members. Bob leads team 10, with Carol in it, and manages its project 20, to
  which Carol is assigned. Task 31 depends on task 30; both are Carol's, set by Bob.
\<close>

definition ex_user :: "oid \<Rightarrow> string \<Rightarrow> user_role \<Rightarrow> user" where
  "ex_user i n r =
     \<lparr>u_id = i, u_name = n, email = n @ ''@example.com'', password = ''$2a$12$abcdefgh'',
      role = r, isActive = True, u_teams = [],
      u_profile = \<lparr>avatar = None, phone = None, department = None, position = None,
                    joinDate = 0\<rparr>,
      lastLogin = None, u_createdBy = None, createdAt = 0, updatedAt = 0\<rparr>"

definition alice :: user where "alice = ex_user 1 ''alice'' Admin"
definition bob :: user where "bob = ex_user 2 ''bob'' Team_leader"
definition carol :: user where "carol = ex_user 3 ''carol'' Member"
definition dave :: user where "dave = ex_user 4 ''dave'' Member"
definition erin :: user where "erin = ex_user 5 ''erin'' Team_leader"

definition ex_team :: team where
  "ex_team =
     \<lparr>t_id = 10, t_name = ''Eng'', t_description = [], teamLeader = 2,
      members = [\<lparr>tm_user = 2, tm_joinedAt = 0, tm_role = TR_team_leader\<rparr>,
                 \<lparr>tm_user = 3, tm_joinedAt = 0, tm_role = TR_member\<rparr>],
      t_isActive = True,
      t_settings = \<lparr>allowMemberInvite = False, publicVisibility = False\<rparr>,
      t_createdBy = 1\<rparr>"

definition ex_project :: project where
  "ex_project =
     \<lparr>p_id = 20, p_name = ''Launch'', p_description = ''Ship it'', p_team = 10,
      projectManager = 2,
      assignedMembers = [\<lparr>am_user = 3, am_assignedAt = 0, am_role = Developer\<rparr>],
      p_status = Planning, p_priority = Medium, p_startDate = 100, p_endDate = 200,
      actualEndDate = None, budget_allocated = 0, budget_spent = 0, p_tags = [],
      p_createdBy = 2\<rparr>"

definition ex_task :: "oid \<Rightarrow> dependency list \<Rightarrow> task" where
  "ex_task i deps =
     \<lparr>k_id = i, k_title = ''Write'', k_description = ''Write it'', k_project = 20,
      assignedTo = 3, assignedBy = 2, k_status = Todo, k_priority = Medium,
      k_type = Feature, estimatedHours = 0, actualHours = 5, k_startDate = 100,
      dueDate = 200, completedDate = None, k_tags = [], dependencies = deps,
      comments = [], progressUpdates = []\<rparr>"

definition ex_db :: db where
  "ex_db =
     \<lparr>users = [alice, bob, carol, dave, erin], teams = [ex_team], projects = [ex_project],
      tasks = [ex_task 30 [], ex_task 31 [\<lparr>dep_task = 30, dep_kind = Depends_on\<rparr>]]\<rparr>"



text \<open>
  A stand-in for the name test: equality up to the case of the letters, which is what
  the expression \<open>^name$\<close> with the flag \<open>i\<close> tests when the name has no character
  that the expression language reads as an operator.
\<close>

definition ex_rx :: "string \<Rightarrow> string \<Rightarrow> bool" where
  "ex_rx pat x = (toLowerCase pat = toLowerCase x)"




text \<open>
  Stand-ins for the hash and for the email pattern, registration requests, and the
  store with no document.
\<close>

definition ex_hash :: "string \<Rightarrow> string" where
  "ex_hash pw = ''$2a$12$'' @ pw"

definition ex_email_ok :: "string \<Rightarrow> bool" where
  "ex_email_ok e = (CHR ''@'' \<in> set e)"

definition ex_register :: "string \<Rightarrow> user_role option \<Rightarrow> register_body" where
  "ex_register n r =
     \<lparr>rb_name = n, rb_email = n @ ''@Example.com'', rb_password = ''secret'', rb_role = r\<rparr>"

definition empty_db :: db where
  "empty_db = \<lparr>users = [], teams = [], projects = [], tasks = []\<rparr>"



text \<open>
  A second team, led by Erin, with Bob and Dave in it; its project 21, which Bob
  manages and Dave is assigned to; and a store with both teams, both projects, and a
  task in each project.
\<close>

definition ex_team2 :: team where
  "ex_team2 =
     \<lparr>t_id = 11, t_name = ''Ops'', t_description = [], teamLeader = 5,
      members = [\<lparr>tm_user = 5, tm_joinedAt = 0, tm_role = TR_team_leader\<rparr>,
                 \<lparr>tm_user = 2, tm_joinedAt = 0, tm_role = TR_member\<rparr>,
                 \<lparr>tm_user = 4, tm_joinedAt = 0, tm_role = TR_member\<rparr>],
      t_isActive = True,
      t_settings = \<lparr>allowMemberInvite = False, publicVisibility = False\<rparr>,
      t_createdBy = 1\<rparr>"

definition ex_project2 :: project where
  "ex_project2 =
     ex_project\<lparr>p_id := 21, p_name := ''Migrate'', p_team := 11, projectManager := 2,
       assignedMembers := [\<lparr>am_user = 4, am_assignedAt = 0, am_role = Developer\<rparr>]\<rparr>"

definition ex_vis_db :: db where
  "ex_vis_db =
     ex_db\<lparr>teams := [ex_team, ex_team2], projects := [ex_project, ex_project2],
       tasks := [ex_task 30 [], (ex_task 32 [])\<lparr>k_project := 21, assignedTo := 4\<rparr>]\<rparr>"

section \<open>Adding a member twice\<close>











section \<open>Lookups and writes in the store\<close>

lemma find_put:
  "find (\<lambda>x. f x = i) xs = Some a \<Longrightarrow> f b = i \<Longrightarrow>
   find (\<lambda>x. f x = i) (map (\<lambda>x. if f x = i then b else x) xs) = Some b"
  by (induction xs) (auto split: if_splits)

lemma find_Some_id: "find (\<lambda>x. f x = i) xs = Some a \<Longrightarrow> f a = i \<and> a \<in> set xs"
  by (induction xs) (auto split: if_splits)



section \<open>Recording progress\<close>

lemma k_id_updateProgress [simp]: "k_id (updateProgress k uid st c h now) = k_id k"
  by (simp add: updateProgress_def Let_def)






section \<open>Deleting a task\<close>






section \<open>The invariants of a task\<close>













section \<open>The leader of a team\<close>


lemma set_role_first_users [simp]: "map tm_user (set_role_first u r ms) = map tm_user ms"
  by (induction ms) auto

lemma tm_user_retag [simp]:
  "tm_user (if tm_user m = u then m\<lparr>tm_role := r\<rparr> else m) = tm_user m"
  by simp

lemma map_tm_user_retag [simp]:
  "map (tm_user \<circ> (\<lambda>m. if tm_user m = u then m\<lparr>tm_role := r\<rparr> else m)) ms = map tm_user ms"
  by (induction ms) auto







lemma team_inv_cong:
  "members t' = members t \<Longrightarrow> teamLeader t' = teamLeader t \<Longrightarrow> team_inv t' = team_inv t"
  by (simp add: team_inv_def leader_tagged_def leader_tags_def members_distinct_def)




lemma t_id_reassign_leader [simp]: "t_id (reassign_leader t l now) = t_id t"
  by (simp add: reassign_leader_def Let_def)


lemma team_other_fields_inv [simp]: "team_inv (team_other_fields t body) = team_inv t"
  by (rule team_inv_cong) (simp_all add: team_other_fields_def)




















section \<open>Demoting a team leader\<close>

lemma demoteUser_team_leader:
  assumes "find_user s uid = Some u" and "role u = Team_leader"
  shows "demoteUser s uid =
     (if filter (\<lambda>t. teamLeader t = uid \<and> t_isActive t) (teams s) \<noteq> []
      then Inl (Err 400 ''Cannot demote user who is leading active teams'')
      else Inr (put_user s (u\<lparr>role := Member\<rparr>)))"
  using assms by (simp add: demoteUser_def)

lemma find_user_put_user:
  assumes "find_user s uid = Some u" and "u_id u' = u_id u"
  shows "find_user (put_user s u') uid = Some u'"
proof -
  from assms(1) have "u_id u = uid"
    using find_Some_id [of u_id uid "users s" u] by (simp add: find_user_def)
  with assms show ?thesis by (simp add: find_user_def put_user_def find_put)
qed

text \<open>
  C5. Let the user exist. A team leader who leads an active team is not demoted: the
  answer is status 400, "Cannot demote user who is leading active teams", and the
  stored user is as before. A team leader who leads no active team is demoted: the
  request succeeds and the stored user has the role \<open>member\<close>. An admin is not
  demoted: the answer is status 400, "Cannot modify admin role".
\<close>

theorem demote_guard:
  assumes "find_user s uid = Some u"
  shows "(role u = Team_leader \<and> list_ex (\<lambda>t. teamLeader t = uid \<and> t_isActive t) (teams s) \<longrightarrow>
            demoteUser s uid = Inl (Err 400 ''Cannot demote user who is leading active teams'') \<and>
            find_user (db_after s (demoteUser s uid)) uid = Some u) \<and>
         (role u = Team_leader \<and> \<not> list_ex (\<lambda>t. teamLeader t = uid \<and> t_isActive t) (teams s) \<longrightarrow>
            demoteUser s uid = Inr (put_user s (u\<lparr>role := Member\<rparr>)) \<and>
            find_user (db_after s (demoteUser s uid)) uid = Some (u\<lparr>role := Member\<rparr>)) \<and>
         (role u = Admin \<longrightarrow>
            demoteUser s uid = Inl (Err 400 ''Cannot modify admin role'') \<and>
            find_user (db_after s (demoteUser s uid)) uid = Some u)"
proof -
  have e: "(filter (\<lambda>t. teamLeader t = uid \<and> t_isActive t) (teams s) \<noteq> []) =
           list_ex (\<lambda>t. teamLeader t = uid \<and> t_isActive t) (teams s)"
    by (auto simp: filter_empty_conv list_ex_iff)
  have a: "role u = Admin \<longrightarrow> demoteUser s uid = Inl (Err 400 ''Cannot modify admin role'')"
    using assms by (simp add: demoteUser_def)
  show ?thesis
    using demoteUser_team_leader [OF assms] e a assms
      find_user_put_user [OF assms, of "u\<lparr>role := Member\<rparr>"]
    by (auto simp: db_after_def)
qed

theorem demote_guard_witness:
  "demoteUser ex_db 2 = Inl (Err 400 ''Cannot demote user who is leading active teams'') \<and>
   find_user (db_after ex_db (demoteUser ex_db 2)) 2 = Some bob \<and>
   demoteUser ex_db 5 = Inr (put_user ex_db (erin\<lparr>role := Member\<rparr>)) \<and>
   find_user (db_after ex_db (demoteUser ex_db 5)) 5 = Some (erin\<lparr>role := Member\<rparr>) \<and>
   demoteUser ex_db 1 = Inl (Err 400 ''Cannot modify admin role'')"
proof -
  have b: "find_user ex_db 2 = Some bob" "role bob = Team_leader"
    "list_ex (\<lambda>t. teamLeader t = 2 \<and> t_isActive t) (teams ex_db)"
    by code_simp+
  have e: "find_user ex_db 5 = Some erin" "role erin = Team_leader"
    "\<not> list_ex (\<lambda>t. teamLeader t = 5 \<and> t_isActive t) (teams ex_db)"
    by code_simp+
  have a: "find_user ex_db 1 = Some alice" "role alice = Admin"
    by code_simp+
  from demote_guard [OF b(1)] b(2,3) demote_guard [OF e(1)] e(2,3) demote_guard [OF a(1)] a(2)
  show ?thesis by blast
qed

section \<open>Registration\<close>

lemma find_appended:
  "i \<notin> set (map f us) \<Longrightarrow> f u' = i \<Longrightarrow>
   find (\<lambda>x. f x = i) (map (\<lambda>x. if f x = i then u' else x) (us @ [u])) =
     (if f u = i then Some u' else None)"
  by (induction us) auto

lemma register_result:
  "register hash email_ok s body newId now =
     (if list_ex (\<lambda>u. email u = toLowerCase (rb_email body)) (users s)
      then Inl (Err 400 ''User with this email already exists'')
      else if \<not> user_validate email_ok
                 (new_user (rb_name body) (toLowerCase (rb_email body)) (hash (rb_password body))
                    (if users s = [] then Some Admin else rb_role body) newId now)
      then Inl (Err 400 ''Validation failed'')
      else if newId \<in> set (map u_id (users s)) then Inl internal_error
      else Inr (put_user
                 (s\<lparr>users := users s @
                     [new_user (rb_name body) (toLowerCase (rb_email body))
                        (hash (rb_password body))
                        (if users s = [] then Some Admin else rb_role body) newId now]\<rparr>)
                 ((new_user (rb_name body) (toLowerCase (rb_email body))
                     (hash (rb_password body))
                     (if users s = [] then Some Admin else rb_role body) newId now)
                    \<lparr>lastLogin := Some now\<rparr>)))"
  by (simp add: register_def Let_def)

lemma register_Inr:
  assumes "register hash email_ok s body newId now = Inr s'"
  shows "\<exists>u. find_user s' newId = Some u \<and>
           role u = (if users s = [] then Admin
                     else (case rb_role body of None \<Rightarrow> Member | Some r \<Rightarrow> r))"
proof -
  define u where "u = new_user (rb_name body) (toLowerCase (rb_email body))
      (hash (rb_password body)) (if users s = [] then Some Admin else rb_role body) newId now"
  from assms have fresh: "newId \<notin> set (map u_id (users s))"
    and s': "s' = put_user (s\<lparr>users := users s @ [u]\<rparr>) (u\<lparr>lastLogin := Some now\<rparr>)"
    unfolding register_result u_def by (simp_all split: if_splits)
  have id: "u_id u = newId" by (simp add: u_def new_user_def)
  have "find_user s' newId = Some (u\<lparr>lastLogin := Some now\<rparr>)"
    using find_appended [OF fresh, of "u\<lparr>lastLogin := Some now\<rparr>" u] id
    by (simp add: s' find_user_def put_user_def)
  moreover have "role (u\<lparr>lastLogin := Some now\<rparr>) =
      (if users s = [] then Admin else (case rb_role body of None \<Rightarrow> Member | Some r \<Rightarrow> r))"
    by (simp add: u_def new_user_def)
  ultimately show ?thesis by blast
qed

text \<open>
  C2. When registration succeeds, the new user is stored under the new id; its role is
  \<open>admin\<close> when the store had no user, whatever role was asked for, and the role asked
  for (the default \<open>member\<close> when none was) when the store had a user. Registration
  succeeds when no stored user has the email in lower case, the new document passes the
  validators of the schema and the id is new; for a store with no user the first and
  the last of these hold by themselves.
\<close>

theorem register_first_user_admin:
  "(register hash email_ok s body newId now = Inr s' \<longrightarrow>
      (\<exists>u. find_user s' newId = Some u \<and>
         (users s = [] \<longrightarrow> role u = Admin) \<and>
         (users s \<noteq> [] \<longrightarrow> role u = (case rb_role body of None \<Rightarrow> Member | Some r \<Rightarrow> r)))) \<and>
   (\<not> list_ex (\<lambda>u. email u = toLowerCase (rb_email body)) (users s) \<and>
    user_validate email_ok
      (new_user (rb_name body) (toLowerCase (rb_email body)) (hash (rb_password body))
         (if users s = [] then Some Admin else rb_role body) newId now) \<and>
    newId \<notin> set (map u_id (users s)) \<longrightarrow>
      (\<exists>s'. register hash email_ok s body newId now = Inr s')) \<and>
   (users s = [] \<and>
    user_validate email_ok
      (new_user (rb_name body) (toLowerCase (rb_email body)) (hash (rb_password body))
         (Some Admin) newId now) \<longrightarrow>
      (\<exists>s'. register hash email_ok s body newId now = Inr s'))"
proof -
  have 1: "register hash email_ok s body newId now = Inr s' \<longrightarrow>
      (\<exists>u. find_user s' newId = Some u \<and>
         (users s = [] \<longrightarrow> role u = Admin) \<and>
         (users s \<noteq> [] \<longrightarrow> role u = (case rb_role body of None \<Rightarrow> Member | Some r \<Rightarrow> r)))"
    using register_Inr [of hash email_ok s body newId now s'] by auto
  have 2: "\<not> list_ex (\<lambda>u. email u = toLowerCase (rb_email body)) (users s) \<and>
    user_validate email_ok
      (new_user (rb_name body) (toLowerCase (rb_email body)) (hash (rb_password body))
         (if users s = [] then Some Admin else rb_role body) newId now) \<and>
    newId \<notin> set (map u_id (users s)) \<longrightarrow>
      (\<exists>s'. register hash email_ok s body newId now = Inr s')"
    by (simp add: register_result)
  have 3: "users s = [] \<and>
    user_validate email_ok
      (new_user (rb_name body) (toLowerCase (rb_email body)) (hash (rb_password body))
         (Some Admin) newId now) \<longrightarrow>
      (\<exists>s'. register hash email_ok s body newId now = Inr s')"
    by (simp add: register_result)
  from 1 2 3 show ?thesis by blast
qed

text \<open>
  The scenario: Alice registers first and asks for \<open>member\<close>; she is the admin. Bob
  registers second and asks for \<open>member\<close>; he is a member.
\<close>

theorem register_first_user_admin_witness:
  "register ex_hash ex_email_ok empty_db (ex_register ''alice'' (Some Member)) 1 7 =
     Inr (db_after empty_db
            (register ex_hash ex_email_ok empty_db (ex_register ''alice'' (Some Member)) 1 7)) \<and>
   map role (users (db_after empty_db
            (register ex_hash ex_email_ok empty_db (ex_register ''alice'' (Some Member)) 1 7)))
     = [Admin] \<and>
   map role (users (db_after
       (db_after empty_db
          (register ex_hash ex_email_ok empty_db (ex_register ''alice'' (Some Member)) 1 7))
       (register ex_hash ex_email_ok
          (db_after empty_db
             (register ex_hash ex_email_ok empty_db (ex_register ''alice'' (Some Member)) 1 7))
          (ex_register ''bob'' (Some Member)) 2 8))) = [Admin, Member] \<and>
   (\<exists>u. find_user (db_after empty_db
            (register ex_hash ex_email_ok empty_db (ex_register ''alice'' (Some Member)) 1 7)) 1
          = Some u \<and> role u = Admin)"
proof -
  let ?s1 = "db_after empty_db
            (register ex_hash ex_email_ok empty_db (ex_register ''alice'' (Some Member)) 1 7)"
  have r1: "register ex_hash ex_email_ok empty_db (ex_register ''alice'' (Some Member)) 1 7 = Inr ?s1"
    by code_simp
  have e: "users empty_db = []" by code_simp
  have m1: "map role (users ?s1) = [Admin]" by code_simp
  have m2: "map role (users (db_after ?s1
       (register ex_hash ex_email_ok ?s1 (ex_register ''bob'' (Some Member)) 2 8))) = [Admin, Member]"
    by code_simp
  from register_first_user_admin [of ex_hash ex_email_ok empty_db
      "ex_register ''alice'' (Some Member)" 1 7 ?s1] r1 e
  have "\<exists>u. find_user ?s1 1 = Some u \<and> role u = Admin" by blast
  with r1 m1 m2 show ?thesis by blast
qed

section \<open>The password and the JSON of a user\<close>

text \<open>
  C10. The object \<open>toJSON\<close> returns has no key \<open>password\<close>, and it is the same object
  for two user records that differ in the password hash alone. The same holds of the
  virtual \<open>fullProfile\<close>, which the register and login responses carry.
\<close>

theorem toJSON_hides_password:
  "''password'' \<notin> fst ` set (toJSON u) \<and>
   toJSON (u\<lparr>password := h\<rparr>) = toJSON (u\<lparr>password := h'\<rparr>) \<and>
   ''password'' \<notin> fst ` set (fullProfile u) \<and>
   fullProfile (u\<lparr>password := h\<rparr>) = fullProfile (u\<lparr>password := h'\<rparr>)"
  by (auto simp: toJSON_def delete_key_def toObject_def fullProfile_def opt_field_def
      split: option.splits)

theorem toJSON_hides_password_witness:
  "map fst (toJSON bob) =
     [''_id'', ''name'', ''email'', ''role'', ''isActive'', ''teams'', ''profile'',
      ''createdAt'', ''updatedAt''] \<and>
   ''password'' \<notin> fst ` set (toJSON bob) \<and>
   toJSON (bob\<lparr>password := ''$2a$12$one''\<rparr>) = toJSON (bob\<lparr>password := ''$2a$12$two''\<rparr>)"
proof -
  have k: "map fst (toJSON bob) =
     [''_id'', ''name'', ''email'', ''role'', ''isActive'', ''teams'', ''profile'',
      ''createdAt'', ''updatedAt'']"
    by code_simp
  from k toJSON_hides_password [of bob "''$2a$12$one''" "''$2a$12$two''"]
  show ?thesis by blast
qed

section \<open>The dates of a project\<close>














section \<open>What a list shows\<close>
















text \<open>
  The filter \<open>assignedTo\<close> is written to the key of the query that scopes a member,
  after the scope: Carol, a member, asks for the tasks assigned to Dave and gets
  task 32.
\<close>

lemma listTasks_assignedTo_replaces_scope:
  "role carol = Member \<and>
   map k_id (listTasks ex_rx ex_vis_db carol (no_task_filters\<lparr>tf_assignedTo := Some 4\<rparr>) 7) = [32] \<and>
   map assignedTo (listTasks ex_rx ex_vis_db carol (no_task_filters\<lparr>tf_assignedTo := Some 4\<rparr>) 7)
     = [4]"
  by code_simp

end
